theory Spec2Isabelle
  imports Main "HOL-Library.Word" "HOL-Library.Sublist"
begin

unbundle bit_operations_syntax

section \<open>Data model of main.c\<close>

text \<open>
  The program is a Zephyr BLE central: a handful of file-scope globals, callbacks the
  Bluetooth stack invokes, and one control loop in \<open>main\<close>.  The globals are one record
  that every function takes and returns.  Every call into the stack and every
  \<open>printk\<close> is appended, in program order, to the field \<open>trace\<close>; what a stack call
  returns is an argument of the function that makes the call.
\<close>

type_synonym u8 = "8 word"
type_synonym u16 = "16 word"
type_synonym u32 = "32 word"

text \<open>A \<open>struct bt_conn *\<close> is \<open>None\<close> for \<open>NULL\<close>, otherwise the identity of the
  connection object.  A \<open>bt_addr_le_t\<close> is an opaque identity.\<close>

type_synonym conn = nat
type_synonym addr = nat

text \<open>\<open>discover_params.uuid\<close> is a pointer: \<open>NULL\<close> after the \<open>memset\<close>, or the address
  of the global \<open>discover_uuid\<close>, the only object the program ever stores there.\<close>

datatype uuid_ptr = Uuid_null | Uuid_discover_uuid

datatype discover_cb = Discover_cb_null | Discover_cb_discover_func
datatype notify_cb = Notify_cb_null | Notify_cb_notify_func
datatype read_cb = Read_cb_null | Read_cb_battery_read_func

text \<open>The discovery kinds of the stack's enum, in its order; the first one has value 0.\<close>

datatype discover_type =
    BT_GATT_DISCOVER_PRIMARY
  | BT_GATT_DISCOVER_SECONDARY
  | BT_GATT_DISCOVER_INCLUDE
  | BT_GATT_DISCOVER_CHARACTERISTIC
  | BT_GATT_DISCOVER_DESCRIPTOR
  | BT_GATT_DISCOVER_ATTRIBUTE
  | BT_GATT_DISCOVER_STD_CHAR_DESC

record bt_gatt_discover_params =
  dp_uuid :: uuid_ptr
  dp_func :: discover_cb
  dp_start_handle :: u16
  dp_end_handle :: u16
  dp_type :: discover_type

record bt_gatt_subscribe_params =
  sp_notify :: notify_cb
  sp_value_handle :: u16
  sp_ccc_handle :: u16
  sp_value :: u16

record bt_gatt_read_params =
  rp_func :: read_cb
  rp_handle_count :: nat
  rp_single_handle :: u16
  rp_single_offset :: u16

text \<open>An attribute handed to the discovery callback: its handle, and the value handle
  the stack's \<open>bt_gatt_attr_value_handle\<close> reports for it.\<close>

record bt_gatt_attr =
  attr_handle :: u16
  attr_value_handle :: u16

text \<open>One parsed AD structure of an advertisement: its type octet and its payload
  (\<open>data_len\<close> is the length of the payload).\<close>

record bt_data =
  bd_type :: u8
  bd_data :: string

record custom_adv_data_t =
  adv_length :: u8
  adv_name :: string

text \<open>The messages of the program's \<open>printk\<close> calls, with their arguments.\<close>

datatype log_msg =
    Log_device_found u8 addr u8 string u8
  | Log_create_conn_failed addr int
  | Log_unsubscribed
  | Log_notification u16 u8
  | Log_discover_complete
  | Log_discovered_attribute u16
  | Log_color_discovery_successful
  | Log_color_handle u16
  | Log_discover_failed int
  | Log_battery_discovery_successful
  | Log_battery_handle u16
  | Log_cccd_discovery_successful
  | Log_subscribe_failed int
  | Log_subscribed
  | Log_scanning_failed int
  | Log_scanning_started
  | Log_failed_to_connect conn u8
  | Log_connected conn
  | Log_disconnected conn u8
  | Log_remote_info_available
  | Log_battery_level u8
  | Log_read_not_successful
  | Log_changing_color
  | Log_reading_battery_level
  | Log_current_conn_params_header
  | Log_current_conn_params u16 u16 u16
  | Log_updating_conn_params
  | Log_updated_conn_params_header
  | Log_updated_conn_params u16 u16 u16
  | Log_disconnecting
  | Log_setting_color string
  | Log_write_failed int
  | Log_write_sent
  | Log_cannot_init_buttons int
  | Log_bluetooth_init_failed int
  | Log_bluetooth_initialized
  | Log_discovery_failed int
  | Log_discovery_started
  | Log_discovery_timed_out
  | Log_discovered_characteristics
  | Log_wait_for_buttons
  | Log_failed_to_disconnect int
  | Log_going_back_to_scanning

text \<open>The calls into the stack, with the arguments the program passes.  A request that
  takes a parameter block carries the block as it is at the call.\<close>

datatype action =
    Printk log_msg
  | Bt_le_scan_start
  | Bt_le_scan_stop
  | Bt_conn_le_create addr
  | Bt_conn_unref "conn option"
  | Bt_gatt_discover "conn option" bt_gatt_discover_params u16
  | Bt_gatt_subscribe "conn option" bt_gatt_subscribe_params
  | Bt_gatt_read "conn option" bt_gatt_read_params
  | Bt_gatt_write_without_response "conn option" u16 u32 nat bool
  | Bt_conn_get_info "conn option"
  | Bt_conn_le_param_update "conn option" u16 u16 u16 u16
  | Bt_conn_disconnect "conn option" u8
  | Dk_buttons_init
  | Bt_enable

text \<open>The globals.  Each semaphore is defined with initial count 0 and limit 1, so its
  count is a bit.\<close>

record state =
  color_attr_handle :: u16
  battery_level_value_handle :: u16
  current_color_index :: u32
  default_conn :: "conn option"
  discover_uuid :: u16
  discover_params :: bt_gatt_discover_params
  subscribe_params :: bt_gatt_subscribe_params
  read_params :: bt_gatt_read_params
  sem_connected :: bool
  sem_discovered :: bool
  sem_disconnected :: bool
  trace :: "action list"

text \<open>What can go wrong inside a callback: a dereference of \<open>NULL\<close>, a read past the
  end of a payload, an index outside \<open>color_array\<close>.\<close>

datatype fault = Null_dereference | Read_past_end | Index_out_of_range

subsection \<open>Constants\<close>

definition NAME_LEN :: nat where
  "NAME_LEN = 30"

definition PERIPHERAL_NAME :: string where
  "PERIPHERAL_NAME = ''PLAYBULB CANDLE II''"

definition COLOR_COUNT :: u32 where
  "COLOR_COUNT = 4"

definition COLOR_WHITE :: u32 where
  "COLOR_WHITE = 0x000000FF"

definition COLOR_RED :: u32 where
  "COLOR_RED = 0x0000FF00"

definition COLOR_GREEN :: u32 where
  "COLOR_GREEN = 0x00FF0000"

definition COLOR_BLUE :: u32 where
  "COLOR_BLUE = 0xFF000000"

definition color_array :: "(u32 \<times> string) list" where
  "color_array =
     [(COLOR_WHITE, ''White''), (COLOR_RED, ''Red''), (COLOR_GREEN, ''Green''),
      (COLOR_BLUE, ''Blue'')]"

definition BT_UUID_COLOR_SETTING :: u16 where
  "BT_UUID_COLOR_SETTING = 0xFFFC"

text \<open>Constants of the stack's headers.\<close>

definition BT_UUID_BAS_BATTERY_LEVEL :: u16 where
  "BT_UUID_BAS_BATTERY_LEVEL = 0x2A19"

definition BT_UUID_GATT_CCC :: u16 where
  "BT_UUID_GATT_CCC = 0x2902"

definition BT_GATT_ITER_STOP :: u8 where
  "BT_GATT_ITER_STOP = 0"

definition BT_GATT_ITER_CONTINUE :: u8 where
  "BT_GATT_ITER_CONTINUE = 1"

definition BT_GATT_CCC_NOTIFY :: u16 where
  "BT_GATT_CCC_NOTIFY = 0x0001"

definition BT_DATA_NAME_SHORTENED :: u8 where
  "BT_DATA_NAME_SHORTENED = 0x08"

definition BT_DATA_NAME_COMPLETE :: u8 where
  "BT_DATA_NAME_COMPLETE = 0x09"

definition BT_GAP_ADV_TYPE_ADV_IND :: u8 where
  "BT_GAP_ADV_TYPE_ADV_IND = 0x00"

definition BT_GAP_ADV_TYPE_SCAN_RSP :: u8 where
  "BT_GAP_ADV_TYPE_SCAN_RSP = 0x04"

definition BT_ATT_FIRST_ATTRIBUTE_HANDLE :: u16 where
  "BT_ATT_FIRST_ATTRIBUTE_HANDLE = 0x0001"

definition BT_ATT_LAST_ATTRIBUTE_HANDLE :: u16 where
  "BT_ATT_LAST_ATTRIBUTE_HANDLE = 0xFFFF"

definition BT_HCI_ERR_REMOTE_USER_TERM_CONN :: u8 where
  "BT_HCI_ERR_REMOTE_USER_TERM_CONN = 0x13"

definition EALREADY :: int where
  "EALREADY = 120"


definition DK_BTN1_MSK :: u32 where
  "DK_BTN1_MSK = 1"

definition DK_BTN2_MSK :: u32 where
  "DK_BTN2_MSK = 2"

definition DK_BTN3_MSK :: u32 where
  "DK_BTN3_MSK = 4"

definition DK_BTN4_MSK :: u32 where
  "DK_BTN4_MSK = 8"

definition BUTTON_COLOR :: u32 where
  "BUTTON_COLOR = DK_BTN1_MSK"

definition BUTTON_BATTERY_LEVEL :: u32 where
  "BUTTON_BATTERY_LEVEL = DK_BTN2_MSK"

definition BUTTON_CONN_PARAMS :: u32 where
  "BUTTON_CONN_PARAMS = DK_BTN3_MSK"

definition BUTTON_DISCONNECT :: u32 where
  "BUTTON_DISCONNECT = DK_BTN4_MSK"

lemmas uuid_defs = BT_UUID_COLOR_SETTING_def BT_UUID_BAS_BATTERY_LEVEL_def BT_UUID_GATT_CCC_def

lemmas button_defs = BUTTON_COLOR_def BUTTON_BATTERY_LEVEL_def BUTTON_CONN_PARAMS_def
  BUTTON_DISCONNECT_def DK_BTN1_MSK_def DK_BTN2_MSK_def DK_BTN3_MSK_def DK_BTN4_MSK_def

subsection \<open>Primitives of the platform\<close>

text \<open>\<open>printk\<close> and a stack call append to the trace.\<close>

definition emit :: "action list \<Rightarrow> state \<Rightarrow> state" where
  "emit as s = s\<lparr>trace := trace s @ as\<rparr>"

text \<open>The actions a run from \<open>s\<close> to \<open>s'\<close> has appended.\<close>

definition issued :: "state \<Rightarrow> state \<Rightarrow> action list" where
  "issued s s' = drop (length (trace s)) (trace s')"

text \<open>\<open>bt_uuid_cmp\<close> on two 16-bit UUIDs is the difference of their values.\<close>

definition bt_uuid_cmp :: "u16 \<Rightarrow> u16 \<Rightarrow> int" where
  "bt_uuid_cmp u1 u2 = uint u1 - uint u2"

text \<open>The all-zero parameter block a \<open>memset\<close> leaves.\<close>

definition zero_discover_params :: bt_gatt_discover_params where
  "zero_discover_params =
     \<lparr>dp_uuid = Uuid_null, dp_func = Discover_cb_null, dp_start_handle = 0,
      dp_end_handle = 0, dp_type = BT_GATT_DISCOVER_PRIMARY\<rparr>"

text \<open>The three semaphores the program uses (\<open>sem_written\<close> and
  \<open>sem_read_operation\<close> are defined and never touched).  \<open>k_sem_give\<close> on a semaphore
  of limit 1 leaves the count at 1.\<close>

datatype sem = Sem_connected | Sem_discovered | Sem_disconnected

fun sem_count :: "sem \<Rightarrow> state \<Rightarrow> bool" where
  "sem_count Sem_connected s = sem_connected s"
| "sem_count Sem_discovered s = sem_discovered s"
| "sem_count Sem_disconnected s = sem_disconnected s"

fun sem_set :: "sem \<Rightarrow> bool \<Rightarrow> state \<Rightarrow> state" where
  "sem_set Sem_connected b s = s\<lparr>sem_connected := b\<rparr>"
| "sem_set Sem_discovered b s = s\<lparr>sem_discovered := b\<rparr>"
| "sem_set Sem_disconnected b s = s\<lparr>sem_disconnected := b\<rparr>"

definition k_sem_give :: "sem \<Rightarrow> state \<Rightarrow> state" where
  "k_sem_give m s = sem_set m True s"

text \<open>C strings: a buffer is a list of bytes, read up to its first NUL; a read at the
  end of the list reads NUL (every buffer read below holds a NUL inside its bounds).\<close>

definition NUL :: char where
  "NUL = CHR 0x00"

definition c_hd :: "string \<Rightarrow> char" where
  "c_hd cs = (case cs of [] \<Rightarrow> NUL | c # _ \<Rightarrow> c)"

definition c_literal :: "string \<Rightarrow> string" where
  "c_literal cs = cs @ [NUL]"

fun strlen :: "string \<Rightarrow> nat" where
  "strlen [] = 0"
| "strlen (c # cs) = (if c = NUL then 0 else Suc (strlen cs))"

fun strncmp :: "string \<Rightarrow> string \<Rightarrow> nat \<Rightarrow> int" where
  "strncmp s1 s2 0 = 0"
| "strncmp s1 s2 (Suc n) =
     (if c_hd s1 \<noteq> c_hd s2 then int (of_char (c_hd s1)) - int (of_char (c_hd s2))
      else if c_hd s1 = NUL then 0
      else strncmp (tl s1) (tl s2) n)"

text \<open>\<open>bt_data_parse\<close> hands the AD structures of a record to the callback in order,
  until the callback returns false.\<close>

fun bt_data_parse ::
  "bt_data list \<Rightarrow> (bt_data \<Rightarrow> 'u \<Rightarrow> bool \<times> 'u) \<Rightarrow> 'u \<Rightarrow> 'u" where
  "bt_data_parse [] func user_data = user_data"
| "bt_data_parse (d # ds) func user_data =
     (case func d user_data of
        (True, u) \<Rightarrow> bt_data_parse ds func u
      | (False, u) \<Rightarrow> u)"

text \<open>The zero-initialised globals at program start.\<close>

definition initial_state :: state where
  "initial_state =
     \<lparr>color_attr_handle = 0, battery_level_value_handle = 0, current_color_index = 0,
      default_conn = None, discover_uuid = 0, discover_params = zero_discover_params,
      subscribe_params =
        \<lparr>sp_notify = Notify_cb_null, sp_value_handle = 0, sp_ccc_handle = 0, sp_value = 0\<rparr>,
      read_params =
        \<lparr>rp_func = Read_cb_null, rp_handle_count = 0, rp_single_handle = 0,
         rp_single_offset = 0\<rparr>,
      sem_connected = False, sem_discovered = False, sem_disconnected = False,
      trace = []\<rparr>"

section \<open>The functions of main.c\<close>

subsection \<open>start_scan\<close>

definition start_scan :: "int \<Rightarrow> state \<Rightarrow> state" where
  "start_scan scan_start_rc s =
     (let s1 = emit [Bt_le_scan_start] s in
      if scan_start_rc \<noteq> 0 then emit [Printk (Log_scanning_failed scan_start_rc)] s1
      else emit [Printk Log_scanning_started] s1)"

subsection \<open>discover_func\<close>

text \<open>
  The callback is registered in \<open>discover_params.func\<close> only, so its argument \<open>params\<close>
  is the address of the global \<open>discover_params\<close>: the \<open>memset\<close> through \<open>params\<close> clears
  the global.  \<open>rc\<close> is what the one stack request of the taken branch returns
  (\<open>bt_gatt_discover\<close> in the first two branches, \<open>bt_gatt_subscribe\<close> in the third).
  The result is the returned iteration code and the globals, or the fault of comparing
  through a \<open>NULL\<close> \<open>discover_params.uuid\<close>.
\<close>

definition discover_func ::
  "conn \<Rightarrow> bt_gatt_attr option \<Rightarrow> int \<Rightarrow> state \<Rightarrow> fault + (u8 \<times> state)" where
  "discover_func conn attr rc s =
     (case attr of
        None \<Rightarrow>
          Inr (BT_GATT_ITER_STOP,
               (emit [Printk Log_discover_complete] s)\<lparr>discover_params := zero_discover_params\<rparr>)
      | Some a \<Rightarrow>
          (let s1 = emit [Printk (Log_discovered_attribute (attr_handle a))] s in
           if dp_uuid (discover_params s1) = Uuid_null then Inl Null_dereference
           else if bt_uuid_cmp (discover_uuid s1) BT_UUID_COLOR_SETTING = 0 then
             (let s2 = emit [Printk Log_color_discovery_successful] s1;
                  s3 = s2\<lparr>color_attr_handle := attr_value_handle a\<rparr>;
                  s4 = emit [Printk (Log_color_handle (color_attr_handle s3))] s3;
                  s5 = s4\<lparr>discover_uuid := BT_UUID_BAS_BATTERY_LEVEL\<rparr>;
                  s6 = s5\<lparr>discover_params := (discover_params s5)
                         \<lparr>dp_uuid := Uuid_discover_uuid,
                          dp_start_handle := attr_handle a + 1,
                          dp_type := BT_GATT_DISCOVER_CHARACTERISTIC\<rparr>\<rparr>;
                  s7 = emit [Bt_gatt_discover (Some conn) (discover_params s6) (discover_uuid s6)] s6;
                  s8 = (if rc \<noteq> 0 then emit [Printk (Log_discover_failed rc)] s7 else s7)
              in Inr (BT_GATT_ITER_STOP, s8))
           else if bt_uuid_cmp (discover_uuid s1) BT_UUID_BAS_BATTERY_LEVEL = 0 then
             (let s2 = emit [Printk Log_battery_discovery_successful] s1;
                  s3 = s2\<lparr>battery_level_value_handle := attr_value_handle a\<rparr>;
                  s4 = emit [Printk (Log_battery_handle (battery_level_value_handle s3))] s3;
                  s5 = s4\<lparr>discover_uuid := BT_UUID_GATT_CCC\<rparr>;
                  s6 = s5\<lparr>discover_params := (discover_params s5)
                         \<lparr>dp_uuid := Uuid_discover_uuid,
                          dp_start_handle := attr_handle a + 2,
                          dp_type := BT_GATT_DISCOVER_DESCRIPTOR\<rparr>,
                        subscribe_params := (subscribe_params s5)
                         \<lparr>sp_value_handle := attr_value_handle a\<rparr>\<rparr>;
                  s7 = emit [Bt_gatt_discover (Some conn) (discover_params s6) (discover_uuid s6)] s6;
                  s8 = (if rc \<noteq> 0 then emit [Printk (Log_discover_failed rc)] s7 else s7)
              in Inr (BT_GATT_ITER_STOP, s8))
           else if bt_uuid_cmp (discover_uuid s1) BT_UUID_GATT_CCC = 0 then
             (let s2 = emit [Printk Log_cccd_discovery_successful] s1;
                  s3 = s2\<lparr>subscribe_params := (subscribe_params s2)
                         \<lparr>sp_notify := Notify_cb_notify_func,
                          sp_value := BT_GATT_CCC_NOTIFY,
                          sp_ccc_handle := attr_handle a\<rparr>\<rparr>;
                  s4 = emit [Bt_gatt_subscribe (Some conn) (subscribe_params s3)] s3;
                  s5 = (if rc \<noteq> 0 \<and> rc \<noteq> - EALREADY
                        then emit [Printk (Log_subscribe_failed rc)] s4
                        else emit [Printk Log_subscribed] s4);
                  s6 = s5\<lparr>sem_discovered := True\<rparr>
              in Inr (BT_GATT_ITER_STOP, s6))
           else Inr (BT_GATT_ITER_STOP, s1)))"

subsection \<open>data_cb and device_found\<close>

text \<open>\<open>data_cb\<close> copies at most \<open>NAME_LEN - 1\<close> bytes of the first name field into the
  30-byte buffer, terminates the copy and stops the parse.\<close>

definition data_cb :: "bt_data \<Rightarrow> custom_adv_data_t \<Rightarrow> bool \<times> custom_adv_data_t" where
  "data_cb d adv =
     (if bd_type d = BT_DATA_NAME_SHORTENED \<or> bd_type d = BT_DATA_NAME_COMPLETE then
        (let len = min (length (bd_data d)) (NAME_LEN - 1);
             name1 = take len (bd_data d) @ drop len (adv_name adv);
             name2 = name1[len := NUL]
         in (False, adv\<lparr>adv_name := name2, adv_length := of_nat len\<rparr>))
      else (True, adv))"

text \<open>The arguments after \<open>ad\<close> are what the stack returns: \<open>scan_stop_rc\<close> from
  \<open>bt_le_scan_stop\<close>, \<open>create_rc\<close> from \<open>bt_conn_le_create\<close> together with the connection
  object it stores through its last argument on success, \<open>scan_start_rc\<close> from the
  \<open>bt_le_scan_start\<close> of \<open>start_scan\<close>.\<close>

definition device_found ::
  "addr \<Rightarrow> u8 \<Rightarrow> u8 \<Rightarrow> bt_data list \<Rightarrow> int \<Rightarrow> int \<Rightarrow> conn \<Rightarrow> int \<Rightarrow> state \<Rightarrow> state" where
  "device_found addr rssi adv_type ad scan_stop_rc create_rc new_conn scan_start_rc s =
     (if default_conn s \<noteq> None then s
      else if adv_type \<noteq> BT_GAP_ADV_TYPE_ADV_IND \<and> adv_type \<noteq> BT_GAP_ADV_TYPE_SCAN_RSP then s
      else
        (let device_ad_data =
               bt_data_parse ad data_cb \<lparr>adv_length = 0, adv_name = replicate NAME_LEN NUL\<rparr>
         in if adv_length device_ad_data = 0 then s
            else
              (let s1 = emit [Printk (Log_device_found adv_type addr (adv_length device_ad_data)
                                        (adv_name device_ad_data) rssi)] s
               in if strncmp (c_literal PERIPHERAL_NAME) (adv_name device_ad_data)
                       (strlen (c_literal PERIPHERAL_NAME)) = 0
                  then
                    (let s2 = emit [Bt_le_scan_stop] s1 in
                     if scan_stop_rc \<noteq> 0 then s2
                     else
                       (let s3 = emit [Bt_conn_le_create addr] s2 in
                        if create_rc \<noteq> 0 then
                          start_scan scan_start_rc
                            (emit [Printk (Log_create_conn_failed addr create_rc)] s3)
                        else s3\<lparr>default_conn := Some new_conn\<rparr>))
                  else s1)))"

subsection \<open>notify_func\<close>

text \<open>The callback is registered in \<open>subscribe_params.notify\<close> only, so \<open>params\<close> is the
  address of the global \<open>subscribe_params\<close>.  \<open>data\<close> is \<open>None\<close> for a \<open>NULL\<close> pointer,
  otherwise the bytes of the payload; \<open>len\<close> is the length argument.\<close>

definition notify_func ::
  "conn \<Rightarrow> u8 list option \<Rightarrow> u16 \<Rightarrow> state \<Rightarrow> fault + (u8 \<times> state)" where
  "notify_func conn data len s =
     (case data of
        None \<Rightarrow>
          Inr (BT_GATT_ITER_STOP,
               (emit [Printk Log_unsubscribed] s)
                 \<lparr>subscribe_params := (subscribe_params s)\<lparr>sp_value_handle := 0\<rparr>\<rparr>)
      | Some [] \<Rightarrow> Inl Read_past_end
      | Some (battery_level # _) \<Rightarrow>
          Inr (BT_GATT_ITER_CONTINUE, emit [Printk (Log_notification len battery_level)] s))"

subsection \<open>connected, disconnected, remote_info_available_cb\<close>

definition connected :: "conn \<Rightarrow> u8 \<Rightarrow> int \<Rightarrow> state \<Rightarrow> state" where
  "connected conn err scan_start_rc s =
     (if err \<noteq> 0 then
        (let s1 = emit [Printk (Log_failed_to_connect conn err)] s;
             s2 = emit [Bt_conn_unref (default_conn s1)] s1;
             s3 = s2\<lparr>default_conn := None\<rparr>
         in start_scan scan_start_rc s3)
      else if Some conn \<noteq> default_conn s then s
      else emit [Printk (Log_connected conn)] s)"

definition disconnected :: "conn \<Rightarrow> u8 \<Rightarrow> state \<Rightarrow> state" where
  "disconnected conn reason s =
     (if Some conn \<noteq> default_conn s then s
      else
        (let s1 = emit [Printk (Log_disconnected conn reason)] s;
             s2 = emit [Bt_conn_unref (default_conn s1)] s1;
             s3 = s2\<lparr>default_conn := None\<rparr>
         in k_sem_give Sem_disconnected s3))"

definition remote_info_available_cb :: "conn \<Rightarrow> state \<Rightarrow> state" where
  "remote_info_available_cb conn s =
     k_sem_give Sem_connected (emit [Printk Log_remote_info_available] s)"

subsection \<open>battery_read_func and read_battery_level\<close>

definition battery_read_func ::
  "conn \<Rightarrow> u8 \<Rightarrow> u8 list option \<Rightarrow> u16 \<Rightarrow> state \<Rightarrow> fault + (u8 \<times> state)" where
  "battery_read_func conn err data len s =
     (case data of
        None \<Rightarrow> Inl Null_dereference
      | Some [] \<Rightarrow> Inl Read_past_end
      | Some (b # _) \<Rightarrow> Inr (BT_GATT_ITER_STOP, emit [Printk (Log_battery_level b)] s))"

definition read_battery_level :: "int \<Rightarrow> state \<Rightarrow> int \<times> state" where
  "read_battery_level read_rc s =
     (let s1 = s\<lparr>read_params := (read_params s)
                  \<lparr>rp_func := Read_cb_battery_read_func,
                   rp_handle_count := 1,
                   rp_single_handle := battery_level_value_handle s,
                   rp_single_offset := 0\<rparr>\<rparr>;
          s2 = emit [Bt_gatt_read (default_conn s1) (read_params s1)] s1;
          s3 = (if read_rc \<noteq> 0 then emit [Printk Log_read_not_successful] s2 else s2)
      in (read_rc, s3))"

subsection \<open>toggle_color and button_state_changed\<close>

text \<open>\<open>toggle_color\<close> indexes \<open>color_array\<close> with the cursor; the write carries the
  entry's 32-bit value, \<open>sizeof(uint32_t)\<close> bytes, unsigned.\<close>

definition toggle_color :: "int \<Rightarrow> state \<Rightarrow> fault + (int \<times> state)" where
  "toggle_color write_rc s =
     (if unat (current_color_index s) < length color_array then
        (let entry = color_array ! unat (current_color_index s);
             s1 = emit [Printk (Log_setting_color (snd entry))] s;
             s2 = emit [Bt_gatt_write_without_response (default_conn s1) (color_attr_handle s1)
                          (fst entry) 4 False] s1;
             s3 = (if write_rc \<noteq> 0 then emit [Printk (Log_write_failed write_rc)] s2
                   else emit [Printk Log_write_sent] s2)
         in Inr (write_rc, s3))
      else Inl Index_out_of_range)"

text \<open>
  \<open>button_state_changed\<close> is four \<open>if\<close> statements in a row, one per button; each is a
  function here, and \<open>button_state_changed\<close> runs them in the order of the source.
  \<open>write_rc\<close> and \<open>read_rc\<close> are what the write and read requests return; \<open>info\<close> is the
  interval, latency and timeout that \<open>bt_conn_get_info\<close> reports.
\<close>

definition pressed :: "u32 \<Rightarrow> u32 \<Rightarrow> u32 \<Rightarrow> bool" where
  "pressed button_state has_changed btn \<longleftrightarrow>
     has_changed AND btn \<noteq> 0 \<and> button_state AND btn \<noteq> 0"

definition on_button_color :: "u32 \<Rightarrow> u32 \<Rightarrow> int \<Rightarrow> state \<Rightarrow> fault + state" where
  "on_button_color button_state has_changed write_rc s =
     (if pressed button_state has_changed BUTTON_COLOR then
        (let s1 = emit [Printk Log_changing_color] s;
             s2 = s1\<lparr>current_color_index := (current_color_index s1 + 1) mod COLOR_COUNT\<rparr>
         in map_sum id snd (toggle_color write_rc s2))
      else Inr s)"

definition on_button_battery_level :: "u32 \<Rightarrow> u32 \<Rightarrow> int \<Rightarrow> state \<Rightarrow> state" where
  "on_button_battery_level button_state has_changed read_rc s =
     (if pressed button_state has_changed BUTTON_BATTERY_LEVEL then
        snd (read_battery_level read_rc (emit [Printk Log_reading_battery_level] s))
      else s)"

definition on_button_conn_params ::
  "u32 \<Rightarrow> u32 \<Rightarrow> u16 \<times> u16 \<times> u16 \<Rightarrow> state \<Rightarrow> state" where
  "on_button_conn_params button_state has_changed info s =
     (if pressed button_state has_changed BUTTON_CONN_PARAMS then
        emit [Printk Log_current_conn_params_header,
              Bt_conn_get_info (default_conn s),
              Printk (Log_current_conn_params (fst info) (fst (snd info)) (snd (snd info))),
              Printk Log_updating_conn_params,
              Bt_conn_le_param_update (default_conn s) 6 6 0 400,
              Printk Log_updated_conn_params_header,
              Printk (Log_updated_conn_params 6 0 400)] s
      else s)"

definition on_button_disconnect :: "u32 \<Rightarrow> u32 \<Rightarrow> state \<Rightarrow> state" where
  "on_button_disconnect button_state has_changed s =
     (if pressed button_state has_changed BUTTON_DISCONNECT then
        emit [Printk Log_disconnecting,
              Bt_conn_disconnect (default_conn s) BT_HCI_ERR_REMOTE_USER_TERM_CONN] s
      else s)"

definition button_state_changed ::
  "u32 \<Rightarrow> u32 \<Rightarrow> int \<Rightarrow> int \<Rightarrow> u16 \<times> u16 \<times> u16 \<Rightarrow> state \<Rightarrow> fault + state" where
  "button_state_changed button_state has_changed write_rc read_rc info s =
     (case on_button_color button_state has_changed write_rc s of
        Inl f \<Rightarrow> Inl f
      | Inr sa \<Rightarrow>
          Inr (on_button_disconnect button_state has_changed
                (on_button_conn_params button_state has_changed info
                  (on_button_battery_level button_state has_changed read_rc sa))))"


subsection \<open>The callbacks as events\<close>



subsection \<open>k_sem_take\<close>

text \<open>
  \<open>k_sem_take\<close> returns 0 at once when the semaphore is given, taking it.  Otherwise
  the caller sleeps and the stack delivers callbacks: \<open>evs\<close> are the events that arrive
  during the wait, in order, each with its arrival time in seconds from the start of the
  wait.  A wait of \<open>n\<close> seconds ends with \<open>-EAGAIN\<close> before the first event that arrives at
  time \<open>n\<close> or later, and when the events run out; an unbounded wait never returns when
  they run out.  A fault in a callback ends the run.
\<close>

datatype timeout = K_FOREVER | K_SECONDS nat


definition expired :: "timeout \<Rightarrow> nat \<Rightarrow> bool" where
  "expired t arrival = (case t of K_FOREVER \<Rightarrow> False | K_SECONDS n \<Rightarrow> n \<le> arrival)"


subsection \<open>main\<close>


text \<open>The statements between the wait for a connection and the test of what
  \<open>bt_gatt_discover\<close> returned: the discovery parameters are set to the colour-setting
  UUID over the full handle range, and the request is issued on \<open>default_conn\<close>.\<close>

definition start_discovery :: "state \<Rightarrow> state" where
  "start_discovery s =
     (let s1 = s\<lparr>discover_uuid := BT_UUID_COLOR_SETTING\<rparr>;
          s2 = s1\<lparr>discover_params := (discover_params s1)
                 \<lparr>dp_uuid := Uuid_discover_uuid,
                  dp_func := Discover_cb_discover_func,
                  dp_start_handle := BT_ATT_FIRST_ATTRIBUTE_HANDLE,
                  dp_end_handle := BT_ATT_LAST_ATTRIBUTE_HANDLE,
                  dp_type := BT_GATT_DISCOVER_CHARACTERISTIC\<rparr>\<rparr>
      in emit [Bt_gatt_discover (default_conn s2) (discover_params s2) (discover_uuid s2)] s2)"






section \<open>Vocabulary of the properties\<close>

text \<open>The stack requests among a list of actions: everything but the \<open>printk\<close> calls.\<close>

fun is_printk :: "action \<Rightarrow> bool" where
  "is_printk (Printk m) = True"
| "is_printk _ = False"

definition requests :: "action list \<Rightarrow> action list" where
  "requests as = filter (\<lambda>a. \<not> is_printk a) as"

text \<open>States of a session with connection 1: connected, and at the start of each of
  the three discovery phases, as \<open>main\<close> and \<open>discover_func\<close> set the globals up.\<close>

definition connected_state :: state where
  "connected_state = initial_state\<lparr>default_conn := Some 1\<rparr>"

definition color_phase_state :: state where
  "color_phase_state =
     connected_state
       \<lparr>discover_uuid := BT_UUID_COLOR_SETTING,
        discover_params :=
          \<lparr>dp_uuid = Uuid_discover_uuid, dp_func = Discover_cb_discover_func,
           dp_start_handle = BT_ATT_FIRST_ATTRIBUTE_HANDLE,
           dp_end_handle = BT_ATT_LAST_ATTRIBUTE_HANDLE,
           dp_type = BT_GATT_DISCOVER_CHARACTERISTIC\<rparr>\<rparr>"

definition battery_phase_state :: state where
  "battery_phase_state =
     color_phase_state
       \<lparr>color_attr_handle := 0x11,
        discover_uuid := BT_UUID_BAS_BATTERY_LEVEL,
        discover_params := (discover_params color_phase_state)\<lparr>dp_start_handle := 0x11\<rparr>\<rparr>"

definition cccd_phase_state :: state where
  "cccd_phase_state =
     battery_phase_state
       \<lparr>battery_level_value_handle := 0x21,
        discover_uuid := BT_UUID_GATT_CCC,
        discover_params := (discover_params battery_phase_state)
          \<lparr>dp_start_handle := 0x22, dp_type := BT_GATT_DISCOVER_DESCRIPTOR\<rparr>,
        subscribe_params := (subscribe_params battery_phase_state)\<lparr>sp_value_handle := 0x21\<rparr>\<rparr>"

lemmas example_state_defs = connected_state_def color_phase_state_def battery_phase_state_def
  cccd_phase_state_def initial_state_def zero_discover_params_def

text \<open>The state after the subscription: the three handles resolved.\<close>

definition subscribed_state :: state where
  "subscribed_state =
     cccd_phase_state
       \<lparr>subscribe_params :=
          \<lparr>sp_notify = Notify_cb_notify_func, sp_value_handle = 0x21, sp_ccc_handle = 0x22,
           sp_value = BT_GATT_CCC_NOTIFY\<rparr>\<rparr>"

text \<open>The 32-bit values of the colour writes among a list of actions, in order.\<close>

fun color_writes :: "action list \<Rightarrow> u32 list" where
  "color_writes [] = []"
| "color_writes (Bt_gatt_write_without_response c h v n sg # as) = v # color_writes as"
| "color_writes (a # as) = color_writes as"

text \<open>A sequence of button events, each given as \<open>(button_state, has_changed)\<close>, with
  every request accepted by the stack.\<close>

fun run_buttons :: "(u32 \<times> u32) list \<Rightarrow> state \<Rightarrow> fault + state" where
  "run_buttons [] s = Inr s"
| "run_buttons ((button_state, has_changed) # bhs) s =
     (case button_state_changed button_state has_changed 0 0 (0, 0, 0) s of
        Inl f \<Rightarrow> Inl f
      | Inr s' \<Rightarrow> run_buttons bhs s')"

text \<open>The RotateColor trigger: button 1 goes down, alone.\<close>

definition rotate :: "u32 \<times> u32" where
  "rotate = (BUTTON_COLOR, BUTTON_COLOR)"

text \<open>The request each trigger issues, as a function of the globals at the trigger.\<close>

definition color_write_request :: "state \<Rightarrow> action" where
  "color_write_request s =
     Bt_gatt_write_without_response (default_conn s) (color_attr_handle s)
       (fst (color_array ! unat ((current_color_index s + 1) mod 4))) 4 False"

definition battery_read_request :: "state \<Rightarrow> action" where
  "battery_read_request s =
     Bt_gatt_read (default_conn s)
       \<lparr>rp_func = Read_cb_battery_read_func, rp_handle_count = 1,
        rp_single_handle = battery_level_value_handle s, rp_single_offset = 0\<rparr>"

text \<open>The conditions of a match, read off an advertisement: the first name field of
  the record, whether the report kind is connectable, and whether that field's payload
  starts with the target name.\<close>

definition is_name_field :: "bt_data \<Rightarrow> bool" where
  "is_name_field d \<longleftrightarrow>
     bd_type d = BT_DATA_NAME_SHORTENED \<or> bd_type d = BT_DATA_NAME_COMPLETE"

definition name_field :: "bt_data list \<Rightarrow> bt_data option" where
  "name_field ad = List.find is_name_field ad"

definition connectable_kind :: "u8 \<Rightarrow> bool" where
  "connectable_kind adv_type \<longleftrightarrow>
     adv_type = BT_GAP_ADV_TYPE_ADV_IND \<or> adv_type = BT_GAP_ADV_TYPE_SCAN_RSP"

definition name_has_target_prefix :: "bt_data list \<Rightarrow> bool" where
  "name_has_target_prefix ad =
     (case name_field ad of None \<Rightarrow> False | Some d \<Rightarrow> prefix PERIPHERAL_NAME (bd_data d))"

definition match_conditions :: "u8 \<Rightarrow> bt_data list \<Rightarrow> state \<Rightarrow> bool" where
  "match_conditions adv_type ad s \<longleftrightarrow>
     name_field ad \<noteq> None \<and> connectable_kind adv_type \<and> default_conn s = None \<and>
     name_has_target_prefix ad"

text \<open>An advertisement of the target: a flags field, then the complete name.\<close>

definition target_advertisement :: "bt_data list" where
  "target_advertisement =
     [\<lparr>bd_type = 0x01, bd_data = [CHR 0x06]\<rparr>,
      \<lparr>bd_type = BT_DATA_NAME_COMPLETE, bd_data = ''PLAYBULB CANDLE II''\<rparr>]"



subsection \<open>Runs of the control loop\<close>








text \<open>How often the scan is started in a list of actions.\<close>

definition scan_starts :: "action list \<Rightarrow> nat" where
  "scan_starts as = length (filter (\<lambda>a. a = Bt_le_scan_start) as)"

section \<open>Basic facts\<close>

lemma trace_emit [simp]: "trace (emit as s) = trace s @ as"
  by (simp add: emit_def)

lemma emit_fields [simp]:
  "color_attr_handle (emit as s) = color_attr_handle s"
  "battery_level_value_handle (emit as s) = battery_level_value_handle s"
  "current_color_index (emit as s) = current_color_index s"
  "default_conn (emit as s) = default_conn s"
  "discover_uuid (emit as s) = discover_uuid s"
  "discover_params (emit as s) = discover_params s"
  "subscribe_params (emit as s) = subscribe_params s"
  "read_params (emit as s) = read_params s"
  "sem_connected (emit as s) = sem_connected s"
  "sem_discovered (emit as s) = sem_discovered s"
  "sem_disconnected (emit as s) = sem_disconnected s"
  by (simp_all add: emit_def)

lemma issued_append [simp]: "trace s' = trace s @ as \<Longrightarrow> issued s s' = as"
  by (simp add: issued_def)

lemma bt_uuid_cmp_eq [simp]: "bt_uuid_cmp u v = 0 \<longleftrightarrow> u = v"
  by (simp add: bt_uuid_cmp_def word_uint_eq_iff)

lemma unat_plus1_u16: "unat (h :: u16) < 65535 \<Longrightarrow> unat (h + 1) = unat h + 1"
  by (simp add: unat_word_ariths)

lemma unat_plus2_u16: "unat (h :: u16) < 65534 \<Longrightarrow> unat (h + 2) = unat h + 2"
  by (simp add: unat_word_ariths)

section \<open>The discovery chain\<close>

lemma discover_func_color:
  assumes "dp_uuid (discover_params s) = Uuid_discover_uuid"
    and "discover_uuid s = BT_UUID_COLOR_SETTING"
  shows "\<exists>s'. discover_func conn (Some a) rc s = Inr (BT_GATT_ITER_STOP, s') \<and>
           color_attr_handle s' = attr_value_handle a \<and>
           discover_params s' = (discover_params s)
             \<lparr>dp_uuid := Uuid_discover_uuid, dp_start_handle := attr_handle a + 1,
              dp_type := BT_GATT_DISCOVER_CHARACTERISTIC\<rparr> \<and>
           discover_uuid s' = BT_UUID_BAS_BATTERY_LEVEL \<and>
           requests (issued s s') =
             [Bt_gatt_discover (Some conn) (discover_params s') BT_UUID_BAS_BATTERY_LEVEL]"
  using assms by (simp add: discover_func_def Let_def requests_def)

lemma discover_func_battery:
  assumes "dp_uuid (discover_params s) = Uuid_discover_uuid"
    and "discover_uuid s = BT_UUID_BAS_BATTERY_LEVEL"
  shows "\<exists>s'. discover_func conn (Some a) rc s = Inr (BT_GATT_ITER_STOP, s') \<and>
           battery_level_value_handle s' = attr_value_handle a \<and>
           sp_value_handle (subscribe_params s') = attr_value_handle a \<and>
           discover_params s' = (discover_params s)
             \<lparr>dp_uuid := Uuid_discover_uuid, dp_start_handle := attr_handle a + 2,
              dp_type := BT_GATT_DISCOVER_DESCRIPTOR\<rparr> \<and>
           discover_uuid s' = BT_UUID_GATT_CCC \<and>
           requests (issued s s') =
             [Bt_gatt_discover (Some conn) (discover_params s') BT_UUID_GATT_CCC]"
  using assms by (simp add: discover_func_def Let_def requests_def uuid_defs)

text \<open>
  C1.  While \<open>discover_params.uuid\<close> points at \<open>discover_uuid\<close>: a callback with an
  attribute in the colour phase (\<open>discover_uuid\<close> is the colour-setting UUID) records the
  attribute's value handle in \<open>color_attr_handle\<close>, sets the range start to the attribute's
  handle plus 1, switches \<open>discover_uuid\<close> to the Battery Level UUID and issues exactly one
  request, a characteristic discovery with the updated parameters.  In the battery phase
  it records the value handle in \<open>battery_level_value_handle\<close> and in
  \<open>subscribe_params.value_handle\<close>, sets the range start to the handle plus 2, switches to
  the CCCD UUID and issues exactly one request, a descriptor discovery.  This holds for
  every attribute, connection and result of the request; the additions are 16-bit, and
  are the exact sums whenever these fit in 16 bits.
\<close>

theorem discover_func_color_then_battery:
  assumes ptr: "dp_uuid (discover_params s) = Uuid_discover_uuid"
  shows "(discover_uuid s = BT_UUID_COLOR_SETTING \<longrightarrow>
           (\<exists>s'. discover_func conn (Some a) rc s = Inr (BT_GATT_ITER_STOP, s') \<and>
                 color_attr_handle s' = attr_value_handle a \<and>
                 dp_start_handle (discover_params s') = attr_handle a + 1 \<and>
                 (unat (attr_handle a) < 65535 \<longrightarrow>
                    unat (dp_start_handle (discover_params s')) = unat (attr_handle a) + 1) \<and>
                 dp_end_handle (discover_params s') = dp_end_handle (discover_params s) \<and>
                 dp_uuid (discover_params s') = Uuid_discover_uuid \<and>
                 discover_uuid s' = BT_UUID_BAS_BATTERY_LEVEL \<and>
                 dp_type (discover_params s') = BT_GATT_DISCOVER_CHARACTERISTIC \<and>
                 requests (issued s s') =
                   [Bt_gatt_discover (Some conn) (discover_params s') BT_UUID_BAS_BATTERY_LEVEL])) \<and>
         (discover_uuid s = BT_UUID_BAS_BATTERY_LEVEL \<longrightarrow>
           (\<exists>s'. discover_func conn (Some a) rc s = Inr (BT_GATT_ITER_STOP, s') \<and>
                 battery_level_value_handle s' = attr_value_handle a \<and>
                 sp_value_handle (subscribe_params s') = attr_value_handle a \<and>
                 dp_start_handle (discover_params s') = attr_handle a + 2 \<and>
                 (unat (attr_handle a) < 65534 \<longrightarrow>
                    unat (dp_start_handle (discover_params s')) = unat (attr_handle a) + 2) \<and>
                 dp_end_handle (discover_params s') = dp_end_handle (discover_params s) \<and>
                 dp_uuid (discover_params s') = Uuid_discover_uuid \<and>
                 discover_uuid s' = BT_UUID_GATT_CCC \<and>
                 dp_type (discover_params s') = BT_GATT_DISCOVER_DESCRIPTOR \<and>
                 requests (issued s s') =
                   [Bt_gatt_discover (Some conn) (discover_params s') BT_UUID_GATT_CCC]))"
proof (intro conjI impI)
  assume u: "discover_uuid s = BT_UUID_COLOR_SETTING"
  from discover_func_color [OF ptr u, of conn a rc]
  obtain s' where r: "discover_func conn (Some a) rc s = Inr (BT_GATT_ITER_STOP, s')"
    and f: "color_attr_handle s' = attr_value_handle a"
      "discover_params s' = (discover_params s)
         \<lparr>dp_uuid := Uuid_discover_uuid, dp_start_handle := attr_handle a + 1,
          dp_type := BT_GATT_DISCOVER_CHARACTERISTIC\<rparr>"
      "discover_uuid s' = BT_UUID_BAS_BATTERY_LEVEL"
      "requests (issued s s') =
         [Bt_gatt_discover (Some conn) (discover_params s') BT_UUID_BAS_BATTERY_LEVEL]"
    by blast
  show "\<exists>s'. discover_func conn (Some a) rc s = Inr (BT_GATT_ITER_STOP, s') \<and>
          color_attr_handle s' = attr_value_handle a \<and>
          dp_start_handle (discover_params s') = attr_handle a + 1 \<and>
          (unat (attr_handle a) < 65535 \<longrightarrow>
             unat (dp_start_handle (discover_params s')) = unat (attr_handle a) + 1) \<and>
          dp_end_handle (discover_params s') = dp_end_handle (discover_params s) \<and>
          dp_uuid (discover_params s') = Uuid_discover_uuid \<and>
          discover_uuid s' = BT_UUID_BAS_BATTERY_LEVEL \<and>
          dp_type (discover_params s') = BT_GATT_DISCOVER_CHARACTERISTIC \<and>
          requests (issued s s') =
            [Bt_gatt_discover (Some conn) (discover_params s') BT_UUID_BAS_BATTERY_LEVEL]"
    using r f by (intro exI [of _ s']) (simp add: unat_plus1_u16)
next
  assume u: "discover_uuid s = BT_UUID_BAS_BATTERY_LEVEL"
  from discover_func_battery [OF ptr u, of conn a rc]
  obtain s' where r: "discover_func conn (Some a) rc s = Inr (BT_GATT_ITER_STOP, s')"
    and f: "battery_level_value_handle s' = attr_value_handle a"
      "sp_value_handle (subscribe_params s') = attr_value_handle a"
      "discover_params s' = (discover_params s)
         \<lparr>dp_uuid := Uuid_discover_uuid, dp_start_handle := attr_handle a + 2,
          dp_type := BT_GATT_DISCOVER_DESCRIPTOR\<rparr>"
      "discover_uuid s' = BT_UUID_GATT_CCC"
      "requests (issued s s') =
         [Bt_gatt_discover (Some conn) (discover_params s') BT_UUID_GATT_CCC]"
    by blast
  show "\<exists>s'. discover_func conn (Some a) rc s = Inr (BT_GATT_ITER_STOP, s') \<and>
          battery_level_value_handle s' = attr_value_handle a \<and>
          sp_value_handle (subscribe_params s') = attr_value_handle a \<and>
          dp_start_handle (discover_params s') = attr_handle a + 2 \<and>
          (unat (attr_handle a) < 65534 \<longrightarrow>
             unat (dp_start_handle (discover_params s')) = unat (attr_handle a) + 2) \<and>
          dp_end_handle (discover_params s') = dp_end_handle (discover_params s) \<and>
          dp_uuid (discover_params s') = Uuid_discover_uuid \<and>
          discover_uuid s' = BT_UUID_GATT_CCC \<and>
          dp_type (discover_params s') = BT_GATT_DISCOVER_DESCRIPTOR \<and>
          requests (issued s s') =
            [Bt_gatt_discover (Some conn) (discover_params s') BT_UUID_GATT_CCC]"
    using r f by (intro exI [of _ s']) (simp add: unat_plus2_u16)
qed

text \<open>The chain run on connection 1: an attribute at handle 0x10 in the colour phase,
  then one at handle 0x20 in the state that leaves.\<close>

theorem discover_func_color_then_battery_witness:
  "dp_uuid (discover_params color_phase_state) = Uuid_discover_uuid \<and>
   discover_uuid color_phase_state = BT_UUID_COLOR_SETTING \<and>
   unat (0x10 :: u16) < 65535 \<and> unat (0x20 :: u16) < 65534 \<and>
   (\<exists>s' s''.
      discover_func 1 (Some \<lparr>attr_handle = 0x10, attr_value_handle = 0x11\<rparr>) 0 color_phase_state
        = Inr (BT_GATT_ITER_STOP, s') \<and>
      color_attr_handle s' = 0x11 \<and>
      unat (dp_start_handle (discover_params s')) = 17 \<and>
      dp_type (discover_params s') = BT_GATT_DISCOVER_CHARACTERISTIC \<and>
      discover_uuid s' = BT_UUID_BAS_BATTERY_LEVEL \<and>
      discover_func 1 (Some \<lparr>attr_handle = 0x20, attr_value_handle = 0x21\<rparr>) 0 s'
        = Inr (BT_GATT_ITER_STOP, s'') \<and>
      battery_level_value_handle s'' = 0x21 \<and>
      sp_value_handle (subscribe_params s'') = 0x21 \<and>
      unat (dp_start_handle (discover_params s'')) = 34 \<and>
      dp_type (discover_params s'') = BT_GATT_DISCOVER_DESCRIPTOR \<and>
      discover_uuid s'' = BT_UUID_GATT_CCC)"
proof -
  have p0: "dp_uuid (discover_params color_phase_state) = Uuid_discover_uuid"
    and u0: "discover_uuid color_phase_state = BT_UUID_COLOR_SETTING"
    by (simp_all add: example_state_defs)
  from discover_func_color_then_battery
         [OF p0, of 1 "\<lparr>attr_handle = 0x10, attr_value_handle = 0x11\<rparr>" 0] u0
  obtain s' where
    r1: "discover_func 1 (Some \<lparr>attr_handle = 0x10, attr_value_handle = 0x11\<rparr>) 0
           color_phase_state = Inr (BT_GATT_ITER_STOP, s')"
    and f1: "color_attr_handle s' = 0x11"
      "unat (dp_start_handle (discover_params s')) = 17"
      "dp_type (discover_params s') = BT_GATT_DISCOVER_CHARACTERISTIC"
    and p1: "dp_uuid (discover_params s') = Uuid_discover_uuid"
    and u1: "discover_uuid s' = BT_UUID_BAS_BATTERY_LEVEL"
    by auto
  from discover_func_color_then_battery
         [OF p1, of 1 "\<lparr>attr_handle = 0x20, attr_value_handle = 0x21\<rparr>" 0] u1
  obtain s'' where
    r2: "discover_func 1 (Some \<lparr>attr_handle = 0x20, attr_value_handle = 0x21\<rparr>) 0 s'
           = Inr (BT_GATT_ITER_STOP, s'')"
    and f2: "battery_level_value_handle s'' = 0x21"
      "sp_value_handle (subscribe_params s'') = 0x21"
      "unat (dp_start_handle (discover_params s'')) = 34"
      "dp_type (discover_params s'') = BT_GATT_DISCOVER_DESCRIPTOR"
      "discover_uuid s'' = BT_UUID_GATT_CCC"
    by auto
  show ?thesis
    using p0 u0 r1 f1 u1 r2 f2 by auto
qed

section \<open>The terminal phase\<close>

text \<open>
  C7.  In the final phase (\<open>discover_uuid\<close> is the CCCD UUID) a callback with an
  attribute fills in the subscription, issues exactly one request, the subscribe, gives
  \<open>sem_discovered\<close> and returns \<open>BT_GATT_ITER_STOP\<close>, whatever the subscribe call
  returns.  A result other than 0 and \<open>-EALREADY\<close> is logged as a failure and changes
  nothing else; no discovery request is issued and the discovery parameters stay as
  they are.
\<close>

theorem discover_func_cccd_terminal:
  assumes "dp_uuid (discover_params s) = Uuid_discover_uuid"
    and "discover_uuid s = BT_UUID_GATT_CCC"
  shows "\<exists>s'. discover_func conn (Some a) rc s = Inr (BT_GATT_ITER_STOP, s') \<and>
           sem_discovered s' \<and>
           subscribe_params s' = (subscribe_params s)
             \<lparr>sp_notify := Notify_cb_notify_func, sp_value := BT_GATT_CCC_NOTIFY,
              sp_ccc_handle := attr_handle a\<rparr> \<and>
           requests (issued s s') = [Bt_gatt_subscribe (Some conn) (subscribe_params s')] \<and>
           (Printk (Log_subscribe_failed rc) \<in> set (issued s s') \<longleftrightarrow>
              rc \<noteq> 0 \<and> rc \<noteq> - EALREADY) \<and>
           (Printk Log_subscribed \<in> set (issued s s') \<longleftrightarrow> rc = 0 \<or> rc = - EALREADY) \<and>
           discover_params s' = discover_params s \<and>
           discover_uuid s' = discover_uuid s \<and>
           default_conn s' = default_conn s"
  using assms by (auto simp: discover_func_def Let_def requests_def uuid_defs)

text \<open>The descriptor at handle 0x22, with the subscribe call failing with -12.\<close>

theorem discover_func_cccd_terminal_witness:
  "dp_uuid (discover_params cccd_phase_state) = Uuid_discover_uuid \<and>
   discover_uuid cccd_phase_state = BT_UUID_GATT_CCC \<and>
   (\<exists>s'. discover_func 1 (Some \<lparr>attr_handle = 0x22, attr_value_handle = 0\<rparr>) (- 12)
            cccd_phase_state = Inr (BT_GATT_ITER_STOP, s') \<and>
         sem_discovered s' \<and>
         requests (issued cccd_phase_state s') =
           [Bt_gatt_subscribe (Some 1)
              \<lparr>sp_notify = Notify_cb_notify_func, sp_value_handle = 0x21,
               sp_ccc_handle = 0x22, sp_value = BT_GATT_CCC_NOTIFY\<rparr>] \<and>
         Printk (Log_subscribe_failed (- 12)) \<in> set (issued cccd_phase_state s'))"
proof -
  have p0: "dp_uuid (discover_params cccd_phase_state) = Uuid_discover_uuid"
    and u0: "discover_uuid cccd_phase_state = BT_UUID_GATT_CCC"
    by (simp_all add: example_state_defs)
  have sp: "subscribe_params cccd_phase_state =
      \<lparr>sp_notify = Notify_cb_null, sp_value_handle = 0x21, sp_ccc_handle = 0, sp_value = 0\<rparr>"
    by (simp add: example_state_defs)
  from discover_func_cccd_terminal
         [OF p0 u0, of 1 "\<lparr>attr_handle = 0x22, attr_value_handle = 0\<rparr>" "- 12"]
  show ?thesis
    using p0 u0 by (auto simp: sp EALREADY_def)
qed

section \<open>Payload reads\<close>

text \<open>
  C10.  \<open>battery_read_func\<close> reads the first byte of the payload without looking at
  \<open>err\<close>, at the pointer or at the length: it returns normally exactly when the completion
  carries a payload of at least one byte; with a \<open>NULL\<close> payload it dereferences
  \<open>NULL\<close>, with an empty one it reads past the end.  Its result does not depend on
  \<open>err\<close> or on the length argument.  \<open>notify_func\<close>, in contrast, returns normally on a
  \<open>NULL\<close> payload.
\<close>

theorem battery_read_func_unguarded:
  "((\<exists>r. battery_read_func conn err data len s = Inr r) \<longleftrightarrow> (\<exists>b bs. data = Some (b # bs))) \<and>
   battery_read_func conn err None len s = Inl Null_dereference \<and>
   battery_read_func conn err (Some []) len s = Inl Read_past_end \<and>
   battery_read_func conn err data len s = battery_read_func conn 0 data 0 s \<and>
   (\<exists>r. notify_func conn None len s = Inr r)"
  by (auto simp: battery_read_func_def notify_func_def split: option.splits list.splits)

lemmas example_state_defs2 = subscribed_state_def example_state_defs

section \<open>Notifications\<close>

text \<open>
  C8, as stated, fails: \<open>notify_func\<close> tests the payload pointer, not the length.  A
  notification of length zero with a non-null pointer does not take the unsubscribe
  branch; the callback goes on to read the first byte of a payload that has none.
\<close>

theorem notify_func_zero_length_counterexample:
  "sp_value_handle (subscribe_params subscribed_state) = 0x21 \<and>
   notify_func 1 (Some []) 0 subscribed_state = Inl Read_past_end"
  by (simp add: notify_func_def example_state_defs2)

text \<open>
  C8, amended.  A callback without payload (\<open>NULL\<close> pointer, the stack's unsubscribe
  indication) always clears the stored value handle, issues no request and returns
  \<open>BT_GATT_ITER_STOP\<close>, and it is the only callback that returns \<open>BT_GATT_ITER_STOP\<close>.  A
  payload of at least one byte leaves the subscription as it is, logs the first byte
  and returns \<open>BT_GATT_ITER_CONTINUE\<close>.  A zero-length payload behind a non-null pointer
  is read past its end.
\<close>

theorem notify_func_null_and_payload:
  "(\<exists>s'. notify_func conn None len s = Inr (BT_GATT_ITER_STOP, s') \<and>
         subscribe_params s' = (subscribe_params s)\<lparr>sp_value_handle := 0\<rparr> \<and>
         requests (issued s s') = []) \<and>
   (\<exists>s'. notify_func conn (Some (b # bs)) len s = Inr (BT_GATT_ITER_CONTINUE, s') \<and>
         subscribe_params s' = subscribe_params s \<and>
         issued s s' = [Printk (Log_notification len b)]) \<and>
   ((\<exists>s'. notify_func conn data len s = Inr (BT_GATT_ITER_STOP, s')) \<longleftrightarrow> data = None) \<and>
   ((\<exists>s'. notify_func conn data len s = Inr (BT_GATT_ITER_CONTINUE, s')) \<longleftrightarrow>
      (\<exists>b bs. data = Some (b # bs))) \<and>
   notify_func conn (Some []) len s = Inl Read_past_end"
  by (auto simp: notify_func_def requests_def BT_GATT_ITER_STOP_def BT_GATT_ITER_CONTINUE_def
           split: option.splits list.splits)

theorem notify_func_null_and_payload_witness:
  "(\<exists>s'. notify_func 1 None 0 subscribed_state = Inr (BT_GATT_ITER_STOP, s') \<and>
         sp_value_handle (subscribe_params s') = 0) \<and>
   (\<exists>s'. notify_func 1 (Some [0x5A]) 1 subscribed_state = Inr (BT_GATT_ITER_CONTINUE, s') \<and>
         sp_value_handle (subscribe_params s') = 0x21)"
proof -
  have v: "sp_value_handle (subscribe_params subscribed_state) = 0x21"
    by (simp add: example_state_defs2)
  from notify_func_null_and_payload [of 1 0 subscribed_state "0x5A" "[]" "Some [0x5A]"]
  have "\<exists>s'. notify_func 1 None 0 subscribed_state = Inr (BT_GATT_ITER_STOP, s') \<and>
         subscribe_params s' = (subscribe_params subscribed_state)\<lparr>sp_value_handle := 0\<rparr>"
    by blast
  moreover
  from notify_func_null_and_payload [of 1 1 subscribed_state "0x5A" "[]" "Some [0x5A]"]
  have "\<exists>s'. notify_func 1 (Some [0x5A]) 1 subscribed_state = Inr (BT_GATT_ITER_CONTINUE, s') \<and>
         subscribe_params s' = subscribe_params subscribed_state"
    by blast
  ultimately show ?thesis using v by auto
qed

section \<open>Connection lifecycle\<close>

lemma sem_set_fields [simp]:
  "color_attr_handle (sem_set m b s) = color_attr_handle s"
  "battery_level_value_handle (sem_set m b s) = battery_level_value_handle s"
  "current_color_index (sem_set m b s) = current_color_index s"
  "default_conn (sem_set m b s) = default_conn s"
  "discover_uuid (sem_set m b s) = discover_uuid s"
  "discover_params (sem_set m b s) = discover_params s"
  "subscribe_params (sem_set m b s) = subscribe_params s"
  "read_params (sem_set m b s) = read_params s"
  "trace (sem_set m b s) = trace s"
  by (cases m; simp)+

lemma sem_count_sem_set [simp]: "sem_count m (sem_set m b s) = b"
  by (cases m) simp_all

text \<open>
  C3.  The Connected signal (\<open>sem_connected\<close>) is to be raised only for the connection
  the program initiated, and an event of an unrelated connection is to change nothing.
  The code does otherwise.  With connection 1 pending or active,
  \<open>remote_info_available_cb\<close> for the unrelated connection 2 gives \<open>sem_connected\<close>, and
  \<open>connected\<close> for connection 2 with an error status releases connection 1.
  \<open>remote_info_available_cb\<close> gives the semaphore for every connection in every state;
  \<open>connected\<close> never touches it.
\<close>

theorem unrelated_connection_not_ignored:
  "default_conn connected_state = Some 1 \<and>
   \<not> sem_connected connected_state \<and>
   sem_connected (remote_info_available_cb 2 connected_state) \<and>
   default_conn (connected 2 0x3E 0 connected_state) = None \<and>
   Bt_conn_unref (Some 1) \<in> set (trace (connected 2 0x3E 0 connected_state)) \<and>
   sem_connected (remote_info_available_cb conn s) \<and>
   sem_connected (connected conn err rc s) = sem_connected s"
  by (simp add: remote_info_available_cb_def connected_def k_sem_give_def start_scan_def Let_def
        example_state_defs)

section \<open>The command dispatcher\<close>

lemma requests_append [simp]: "requests (xs @ ys) = requests xs @ requests ys"
  by (simp add: requests_def)

lemma unat_mod4_less: "unat ((x :: u32) mod 4) < 4"
  by (simp add: unat_mod)

lemma unat_succ_mod4: "unat (((x :: u32) + 1) mod 4) = (unat x + 1) mod 4"
  by (simp add: unat_word_ariths unat_mod mod_mod_cancel)

lemma on_button_color_facts:
  "\<exists>sa as. on_button_color bs hc write_rc s = Inr sa \<and>
     trace sa = trace s @ as \<and>
     requests as = (if pressed bs hc BUTTON_COLOR then [color_write_request s] else []) \<and>
     current_color_index sa =
       (if pressed bs hc BUTTON_COLOR then (current_color_index s + 1) mod 4
        else current_color_index s) \<and>
     default_conn sa = default_conn s \<and>
     color_attr_handle sa = color_attr_handle s \<and>
     battery_level_value_handle sa = battery_level_value_handle s"
proof (cases "pressed bs hc BUTTON_COLOR")
  case True
  then show ?thesis
    using unat_mod4_less [of "current_color_index s + 1"]
    by (simp add: on_button_color_def toggle_color_def Let_def COLOR_COUNT_def
          color_array_def color_write_request_def requests_def)
next
  case False
  then show ?thesis
    by (simp add: on_button_color_def requests_def)
qed

lemma on_button_battery_level_facts:
  "\<exists>as. trace (on_button_battery_level bs hc read_rc s) = trace s @ as \<and>
     requests as = (if pressed bs hc BUTTON_BATTERY_LEVEL then [battery_read_request s] else []) \<and>
     current_color_index (on_button_battery_level bs hc read_rc s) = current_color_index s \<and>
     default_conn (on_button_battery_level bs hc read_rc s) = default_conn s \<and>
     color_attr_handle (on_button_battery_level bs hc read_rc s) = color_attr_handle s \<and>
     battery_level_value_handle (on_button_battery_level bs hc read_rc s) =
       battery_level_value_handle s"
  by (simp add: on_button_battery_level_def read_battery_level_def Let_def
        battery_read_request_def requests_def)

lemma on_button_conn_params_facts:
  "\<exists>as. trace (on_button_conn_params bs hc info s) = trace s @ as \<and>
     requests as =
       (if pressed bs hc BUTTON_CONN_PARAMS
        then [Bt_conn_get_info (default_conn s),
              Bt_conn_le_param_update (default_conn s) 6 6 0 400]
        else []) \<and>
     current_color_index (on_button_conn_params bs hc info s) = current_color_index s \<and>
     default_conn (on_button_conn_params bs hc info s) = default_conn s \<and>
     color_attr_handle (on_button_conn_params bs hc info s) = color_attr_handle s \<and>
     battery_level_value_handle (on_button_conn_params bs hc info s) =
       battery_level_value_handle s"
  by (simp add: on_button_conn_params_def requests_def)

lemma on_button_disconnect_facts:
  "\<exists>as. trace (on_button_disconnect bs hc s) = trace s @ as \<and>
     requests as =
       (if pressed bs hc BUTTON_DISCONNECT
        then [Bt_conn_disconnect (default_conn s) BT_HCI_ERR_REMOTE_USER_TERM_CONN]
        else []) \<and>
     current_color_index (on_button_disconnect bs hc s) = current_color_index s \<and>
     default_conn (on_button_disconnect bs hc s) = default_conn s \<and>
     color_attr_handle (on_button_disconnect bs hc s) = color_attr_handle s \<and>
     battery_level_value_handle (on_button_disconnect bs hc s) = battery_level_value_handle s"
  by (simp add: on_button_disconnect_def requests_def)

lemma button_state_changed_requests:
  "\<exists>s'. button_state_changed bs hc write_rc read_rc info s = Inr s' \<and>
     requests (issued s s') =
       (if pressed bs hc BUTTON_COLOR then [color_write_request s] else []) @
       (if pressed bs hc BUTTON_BATTERY_LEVEL then [battery_read_request s] else []) @
       (if pressed bs hc BUTTON_CONN_PARAMS
        then [Bt_conn_get_info (default_conn s),
              Bt_conn_le_param_update (default_conn s) 6 6 0 400]
        else []) @
       (if pressed bs hc BUTTON_DISCONNECT
        then [Bt_conn_disconnect (default_conn s) BT_HCI_ERR_REMOTE_USER_TERM_CONN]
        else []) \<and>
     current_color_index s' =
       (if pressed bs hc BUTTON_COLOR then (current_color_index s + 1) mod 4
        else current_color_index s) \<and>
     default_conn s' = default_conn s \<and>
     color_attr_handle s' = color_attr_handle s \<and>
     battery_level_value_handle s' = battery_level_value_handle s"
proof -
  obtain sa as1 where a: "on_button_color bs hc write_rc s = Inr sa"
    and a1: "trace sa = trace s @ as1"
      "requests as1 = (if pressed bs hc BUTTON_COLOR then [color_write_request s] else [])"
    and a2: "current_color_index sa =
       (if pressed bs hc BUTTON_COLOR then (current_color_index s + 1) mod 4
        else current_color_index s)"
      "default_conn sa = default_conn s" "color_attr_handle sa = color_attr_handle s"
      "battery_level_value_handle sa = battery_level_value_handle s"
    using on_button_color_facts [of bs hc write_rc s] by blast
  define sb where "sb = on_button_battery_level bs hc read_rc sa"
  define sc where "sc = on_button_conn_params bs hc info sb"
  define sd where "sd = on_button_disconnect bs hc sc"
  obtain as2 where b1: "trace sb = trace sa @ as2"
      "requests as2 =
         (if pressed bs hc BUTTON_BATTERY_LEVEL then [battery_read_request sa] else [])"
    and b2: "current_color_index sb = current_color_index sa"
      "default_conn sb = default_conn sa" "color_attr_handle sb = color_attr_handle sa"
      "battery_level_value_handle sb = battery_level_value_handle sa"
    unfolding sb_def using on_button_battery_level_facts [of bs hc read_rc sa] by blast
  obtain as3 where c1: "trace sc = trace sb @ as3"
      "requests as3 =
         (if pressed bs hc BUTTON_CONN_PARAMS
          then [Bt_conn_get_info (default_conn sb),
                Bt_conn_le_param_update (default_conn sb) 6 6 0 400]
          else [])"
    and c2: "current_color_index sc = current_color_index sb"
      "default_conn sc = default_conn sb" "color_attr_handle sc = color_attr_handle sb"
      "battery_level_value_handle sc = battery_level_value_handle sb"
    unfolding sc_def using on_button_conn_params_facts [of bs hc info sb] by blast
  obtain as4 where d1: "trace sd = trace sc @ as4"
      "requests as4 =
         (if pressed bs hc BUTTON_DISCONNECT
          then [Bt_conn_disconnect (default_conn sc) BT_HCI_ERR_REMOTE_USER_TERM_CONN]
          else [])"
    and d2: "current_color_index sd = current_color_index sc"
      "default_conn sd = default_conn sc" "color_attr_handle sd = color_attr_handle sc"
      "battery_level_value_handle sd = battery_level_value_handle sc"
    unfolding sd_def using on_button_disconnect_facts [of bs hc sc] by blast
  have r: "button_state_changed bs hc write_rc read_rc info s = Inr sd"
    by (simp add: button_state_changed_def a sb_def sc_def sd_def)
  have t: "trace sd = trace s @ (as1 @ as2 @ as3 @ as4)"
    by (simp add: a1 b1 c1 d1)
  have br: "battery_read_request sa = battery_read_request s"
    by (simp add: battery_read_request_def a2)
  have "requests (issued s sd) = requests as1 @ requests as2 @ requests as3 @ requests as4"
    using issued_append [OF t] by simp
  then have q: "requests (issued s sd) =
       (if pressed bs hc BUTTON_COLOR then [color_write_request s] else []) @
       (if pressed bs hc BUTTON_BATTERY_LEVEL then [battery_read_request s] else []) @
       (if pressed bs hc BUTTON_CONN_PARAMS
        then [Bt_conn_get_info (default_conn s),
              Bt_conn_le_param_update (default_conn s) 6 6 0 400]
        else []) @
       (if pressed bs hc BUTTON_DISCONNECT
        then [Bt_conn_disconnect (default_conn s) BT_HCI_ERR_REMOTE_USER_TERM_CONN]
        else [])"
    by (simp only: a1 b1 c1 d1 a2 b2 c2 d2 br)
  have f: "current_color_index sd =
       (if pressed bs hc BUTTON_COLOR then (current_color_index s + 1) mod 4
        else current_color_index s)"
    "default_conn sd = default_conn s" "color_attr_handle sd = color_attr_handle s"
    "battery_level_value_handle sd = battery_level_value_handle s"
    by (simp_all only: a2 b2 c2 d2)
  show ?thesis
    using r q f by blast
qed

text \<open>One RotateColor trigger alone, with the write accepted.\<close>

lemma pressed_color_only [simp]:
  "pressed BUTTON_COLOR BUTTON_COLOR BUTTON_COLOR"
  "\<not> pressed BUTTON_COLOR BUTTON_COLOR BUTTON_BATTERY_LEVEL"
  "\<not> pressed BUTTON_COLOR BUTTON_COLOR BUTTON_CONN_PARAMS"
  "\<not> pressed BUTTON_COLOR BUTTON_COLOR BUTTON_DISCONNECT"
  by (simp_all add: pressed_def button_defs)

lemma color_writes_append [simp]: "color_writes (xs @ ys) = color_writes xs @ color_writes ys"
  by (induction xs rule: color_writes.induct) simp_all

lemma rotate_once:
  "button_state_changed BUTTON_COLOR BUTTON_COLOR 0 0 (0, 0, 0) s =
     Inr (emit [Printk Log_changing_color,
                Printk (Log_setting_color
                  (snd (color_array ! unat ((current_color_index s + 1) mod 4)))),
                color_write_request s,
                Printk Log_write_sent]
            (s\<lparr>current_color_index := (current_color_index s + 1) mod 4\<rparr>))"
  using unat_mod4_less [of "current_color_index s + 1"]
  by (simp add: button_state_changed_def on_button_color_def on_button_battery_level_def
        on_button_conn_params_def on_button_disconnect_def toggle_color_def Let_def
        COLOR_COUNT_def color_array_def color_write_request_def emit_def)

lemma run_rotate:
  "run_buttons (rotate # bhs) s =
     run_buttons bhs
       (emit [Printk Log_changing_color,
              Printk (Log_setting_color
                (snd (color_array ! unat ((current_color_index s + 1) mod 4)))),
              color_write_request s,
              Printk Log_write_sent]
          (s\<lparr>current_color_index := (current_color_index s + 1) mod 4\<rparr>))"
  by (simp add: rotate_def rotate_once)

lemma all_pressed [simp]:
  "pressed 15 15 BUTTON_COLOR" "pressed 15 15 BUTTON_BATTERY_LEVEL"
  "pressed 15 15 BUTTON_CONN_PARAMS" "pressed 15 15 BUTTON_DISCONNECT"
  by (simp_all add: pressed_def button_defs)

text \<open>
  C5, as stated, fails in its scenario: the cursor is advanced before the write, so
  four RotateColor triggers from index 0 write Red, Green, Blue, White, not White, Red,
  Green, Blue.
\<close>

theorem rotate_sequence_counterexample:
  "map_sum id (\<lambda>s. color_writes (trace s))
     (run_buttons [rotate, rotate, rotate, rotate] initial_state) =
     Inr [COLOR_RED, COLOR_GREEN, COLOR_BLUE, COLOR_WHITE] \<and>
   [COLOR_RED, COLOR_GREEN, COLOR_BLUE, COLOR_WHITE] \<noteq>
   [COLOR_WHITE, COLOR_RED, COLOR_GREEN, COLOR_BLUE]"
  by (simp add: run_rotate color_write_request_def color_array_def initial_state_def
        COLOR_RED_def COLOR_WHITE_def)

text \<open>
  C5, amended.  Each RotateColor trigger, in every state and whatever the other buttons
  do, advances \<open>current_color_index\<close> by one modulo 4 (in 32-bit arithmetic, which agrees
  with the natural-number sum) and then issues, as its first request, the write of the
  entry of \<open>color_array\<close> at the new index.  From index 0, five triggers write Red,
  Green, Blue, White and Red again.
\<close>

theorem rotate_color_advances_then_writes:
  "(pressed bs hc BUTTON_COLOR \<longrightarrow>
      (\<exists>s'. button_state_changed bs hc write_rc read_rc info s = Inr s' \<and>
            current_color_index s' = (current_color_index s + 1) mod 4 \<and>
            unat (current_color_index s') = (unat (current_color_index s) + 1) mod 4 \<and>
            (\<exists>rest. requests (issued s s') =
               Bt_gatt_write_without_response (default_conn s) (color_attr_handle s)
                 (fst (color_array ! unat (current_color_index s'))) 4 False # rest))) \<and>
   map_sum id (\<lambda>s. color_writes (trace s))
     (run_buttons [rotate, rotate, rotate, rotate, rotate] initial_state) =
     Inr [COLOR_RED, COLOR_GREEN, COLOR_BLUE, COLOR_WHITE, COLOR_RED]"
proof (intro conjI impI)
  assume p: "pressed bs hc BUTTON_COLOR"
  from button_state_changed_requests [of bs hc write_rc read_rc info s] p
  obtain s' where r: "button_state_changed bs hc write_rc read_rc info s = Inr s'"
    and i: "current_color_index s' = (current_color_index s + 1) mod 4"
    and q: "\<exists>rest. requests (issued s s') = color_write_request s # rest"
    by auto
  have "unat (current_color_index s') = (unat (current_color_index s) + 1) mod 4"
    by (simp add: i unat_succ_mod4)
  with r i q
  show "\<exists>s'. button_state_changed bs hc write_rc read_rc info s = Inr s' \<and>
          current_color_index s' = (current_color_index s + 1) mod 4 \<and>
          unat (current_color_index s') = (unat (current_color_index s) + 1) mod 4 \<and>
          (\<exists>rest. requests (issued s s') =
             Bt_gatt_write_without_response (default_conn s) (color_attr_handle s)
               (fst (color_array ! unat (current_color_index s'))) 4 False # rest)"
    by (auto simp: color_write_request_def)
next
  show "map_sum id (\<lambda>s. color_writes (trace s))
     (run_buttons [rotate, rotate, rotate, rotate, rotate] initial_state) =
     Inr [COLOR_RED, COLOR_GREEN, COLOR_BLUE, COLOR_WHITE, COLOR_RED]"
    by (simp add: run_rotate color_write_request_def color_array_def initial_state_def)
qed

text \<open>
  The wrap from index 3 to index 0, where the write carries White.
\<close>

theorem rotate_color_advances_then_writes_witness:
  "pressed BUTTON_COLOR BUTTON_COLOR BUTTON_COLOR \<and>
   (\<exists>s'. button_state_changed BUTTON_COLOR BUTTON_COLOR 0 0 (0, 0, 0)
            (initial_state\<lparr>current_color_index := 3\<rparr>) = Inr s' \<and>
         current_color_index s' = 0 \<and>
         (\<exists>rest. requests (issued (initial_state\<lparr>current_color_index := 3\<rparr>) s') =
            Bt_gatt_write_without_response None 0 COLOR_WHITE 4 False # rest))"
proof -
  have p: "pressed BUTTON_COLOR BUTTON_COLOR BUTTON_COLOR" by simp
  have f: "default_conn (initial_state\<lparr>current_color_index := 3\<rparr>) = None"
    "color_attr_handle (initial_state\<lparr>current_color_index := 3\<rparr>) = 0"
    by (simp_all add: initial_state_def)
  from rotate_color_advances_then_writes
         [of BUTTON_COLOR BUTTON_COLOR 0 0 "(0, 0, 0)" "initial_state\<lparr>current_color_index := 3\<rparr>"] p
  show ?thesis
    by (auto simp: f color_array_def)
qed

text \<open>
  C6, as stated, fails: no trigger is guarded.  At program start, with no connection
  and no handle resolved, a callback with all four buttons down advances the cursor and
  issues all five requests, each on the \<open>NULL\<close> connection and on handle 0.
\<close>

theorem triggers_unguarded_counterexample:
  "default_conn initial_state = None \<and>
   color_attr_handle initial_state = 0 \<and>
   battery_level_value_handle initial_state = 0 \<and>
   map_sum id (\<lambda>s. (current_color_index s, requests (trace s)))
     (button_state_changed 15 15 0 0 (0, 0, 0) initial_state) =
     Inr (1, [Bt_gatt_write_without_response None 0 COLOR_RED 4 False,
              Bt_gatt_read None
                \<lparr>rp_func = Read_cb_battery_read_func, rp_handle_count = 1,
                 rp_single_handle = 0, rp_single_offset = 0\<rparr>,
              Bt_conn_get_info None,
              Bt_conn_le_param_update None 6 6 0 400,
              Bt_conn_disconnect None BT_HCI_ERR_REMOTE_USER_TERM_CONN])"
proof -
  have t: "trace initial_state = []"
    and f: "default_conn initial_state = None" "color_attr_handle initial_state = 0"
      "battery_level_value_handle initial_state = 0" "current_color_index initial_state = 0"
    by (simp_all add: initial_state_def)
  from button_state_changed_requests [of 15 15 0 0 "(0, 0, 0)" initial_state]
  show ?thesis
    by (auto simp: f issued_def t color_write_request_def battery_read_request_def
          color_array_def)
qed

text \<open>
  C6, amended.  In every state, with or without a connection and whatever the handles
  hold, \<open>button_state_changed\<close> returns normally and issues, for each button that went
  down, that button's request on the current \<open>default_conn\<close> and the current handles:
  the colour write (after advancing the cursor), the battery read, the connection
  parameter query and update, the disconnect; in this order, and nothing else.  The
  connection and the two handles are left as they are.
\<close>

theorem triggers_issue_requests_in_every_state:
  "\<exists>s'. button_state_changed bs hc write_rc read_rc info s = Inr s' \<and>
     requests (issued s s') =
       (if pressed bs hc BUTTON_COLOR then [color_write_request s] else []) @
       (if pressed bs hc BUTTON_BATTERY_LEVEL then [battery_read_request s] else []) @
       (if pressed bs hc BUTTON_CONN_PARAMS
        then [Bt_conn_get_info (default_conn s),
              Bt_conn_le_param_update (default_conn s) 6 6 0 400]
        else []) @
       (if pressed bs hc BUTTON_DISCONNECT
        then [Bt_conn_disconnect (default_conn s) BT_HCI_ERR_REMOTE_USER_TERM_CONN]
        else []) \<and>
     current_color_index s' =
       (if pressed bs hc BUTTON_COLOR then (current_color_index s + 1) mod 4
        else current_color_index s) \<and>
     default_conn s' = default_conn s \<and>
     color_attr_handle s' = color_attr_handle s \<and>
     battery_level_value_handle s' = battery_level_value_handle s"
  by (rule button_state_changed_requests)

text \<open>
  All four buttons down in the subscribed state of connection 1.
\<close>

theorem triggers_issue_requests_in_every_state_witness:
  "pressed 15 15 BUTTON_COLOR \<and> pressed 15 15 BUTTON_BATTERY_LEVEL \<and>
   pressed 15 15 BUTTON_CONN_PARAMS \<and> pressed 15 15 BUTTON_DISCONNECT \<and>
   (\<exists>s'. button_state_changed 15 15 0 0 (0, 0, 0) subscribed_state = Inr s' \<and>
         requests (issued subscribed_state s') =
           [Bt_gatt_write_without_response (Some 1) 0x11 COLOR_RED 4 False,
            Bt_gatt_read (Some 1)
              \<lparr>rp_func = Read_cb_battery_read_func, rp_handle_count = 1,
               rp_single_handle = 0x21, rp_single_offset = 0\<rparr>,
            Bt_conn_get_info (Some 1),
            Bt_conn_le_param_update (Some 1) 6 6 0 400,
            Bt_conn_disconnect (Some 1) BT_HCI_ERR_REMOTE_USER_TERM_CONN] \<and>
         current_color_index s' = 1)"
proof -
  have f: "default_conn subscribed_state = Some 1" "color_attr_handle subscribed_state = 0x11"
    "battery_level_value_handle subscribed_state = 0x21"
    "current_color_index subscribed_state = 0"
    by (simp_all add: example_state_defs2)
  from triggers_issue_requests_in_every_state [of 15 15 0 0 "(0, 0, 0)" subscribed_state]
  show ?thesis
    by (auto simp: f color_write_request_def battery_read_request_def color_array_def)
qed

section \<open>The advertisement filter\<close>

lemma bt_data_parse_data_cb:
  "bt_data_parse ad data_cb u =
     (case name_field ad of None \<Rightarrow> u | Some d \<Rightarrow> snd (data_cb d u))"
  by (induction ad arbitrary: u)
     (auto simp: name_field_def is_name_field_def data_cb_def Let_def split: prod.splits)

lemma strncmp_literal:
  assumes "NUL \<notin> set t"
  shows "strncmp (c_literal t) buf (length t) = 0 \<longleftrightarrow> take (length t) buf = t"
  using assms
proof (induction t arbitrary: buf)
  case Nil
  then show ?case by simp
next
  case (Cons c t)
  then have c: "c \<noteq> NUL" and t: "NUL \<notin> set t" by auto
  show ?case
  proof (cases buf)
    case Nil
    then show ?thesis using c by (simp add: c_literal_def c_hd_def)
  next
    case (Cons b buf')
    then show ?thesis
      using c Cons.IH [OF t, of buf'] by (auto simp: c_literal_def c_hd_def)
  qed
qed

lemma strlen_literal: "NUL \<notin> set t \<Longrightarrow> strlen (c_literal t) = length t"
  by (induction t) (auto simp: c_literal_def)

lemma PERIPHERAL_NAME_facts:
  "NUL \<notin> set PERIPHERAL_NAME" "length PERIPHERAL_NAME = 18"
  by (simp_all add: PERIPHERAL_NAME_def NUL_def)


lemma replicate_update_same [simp]: "(replicate k x)[i := x] = replicate k x"
  by (induction k arbitrary: i) (simp_all split: nat.splits)

lemma data_cb_name_field:
  assumes "is_name_field d"
  shows "data_cb d \<lparr>adv_length = 0, adv_name = replicate NAME_LEN NUL\<rparr> =
           (False,
            \<lparr>adv_length = of_nat (min (length (bd_data d)) 29),
             adv_name = take (min (length (bd_data d)) 29) (bd_data d) @
                        replicate (30 - min (length (bd_data d)) 29) NUL\<rparr>)"
  using assms
  by (simp add: data_cb_def is_name_field_def Let_def NAME_LEN_def list_update_append min_def)

lemma name_length_nonzero:
  "(of_nat (min n 29) :: u8) = 0 \<longleftrightarrow> n = 0"
proof -
  have "unat (of_nat (min n 29) :: u8) = min n 29"
    by (simp add: unat_of_nat)
  then have "unat (of_nat (min n 29) :: u8) = 0 \<longleftrightarrow> n = 0"
    by (simp add: min_def)
  then show ?thesis
    by (simp add: unat_eq_0)
qed

lemma take_name_eq_target:
  fixes data :: string
  defines "len \<equiv> min (length data) 29"
  shows "take 18 (take len data @ replicate (30 - len) NUL) = PERIPHERAL_NAME \<longleftrightarrow>
         prefix PERIPHERAL_NAME data"
proof (cases "18 \<le> length data")
  case True
  then have "18 \<le> len" by (simp add: len_def)
  then have "take 18 (take len data @ replicate (30 - len) NUL) = take 18 data"
    using True by (simp add: min_def)
  moreover have "take 18 data = PERIPHERAL_NAME \<longleftrightarrow> prefix PERIPHERAL_NAME data"
    using PERIPHERAL_NAME_facts(2) by (metis append_eq_conv_conj prefix_def)
  ultimately show ?thesis by simp
next
  case False
  then have l: "len = length data" "len < 18" by (simp_all add: len_def)
  have "\<not> prefix PERIPHERAL_NAME data"
    using False PERIPHERAL_NAME_facts(2) by (auto dest: prefix_length_le)
  moreover have "take 18 (take len data @ replicate (30 - len) NUL) \<noteq> PERIPHERAL_NAME"
  proof
    assume e: "take 18 (take len data @ replicate (30 - len) NUL) = PERIPHERAL_NAME"
    have "take 18 (take len data @ replicate (30 - len) NUL) ! len = NUL"
      using l by (simp add: nth_append)
    then have "PERIPHERAL_NAME ! len = NUL" using e by simp
    moreover have "PERIPHERAL_NAME ! len \<in> set PERIPHERAL_NAME"
      using l PERIPHERAL_NAME_facts(2) by simp
    ultimately show False using PERIPHERAL_NAME_facts(1) by simp
  qed
  ultimately show ?thesis by simp
qed


lemma is_printk_requests_simps [simp]:
  "requests [] = []"
  "requests (Printk m # as) = requests as"
  "requests (Bt_le_scan_start # as) = Bt_le_scan_start # requests as"
  "requests (Bt_le_scan_stop # as) = Bt_le_scan_stop # requests as"
  "requests (Bt_conn_le_create a # as) = Bt_conn_le_create a # requests as"
  by (simp_all add: requests_def)

lemma parsed_name:
  assumes "name_field ad = Some d"
  shows "bt_data_parse ad data_cb \<lparr>adv_length = 0, adv_name = replicate NAME_LEN NUL\<rparr> =
           \<lparr>adv_length = of_nat (min (length (bd_data d)) 29),
            adv_name = take (min (length (bd_data d)) 29) (bd_data d) @
                       replicate (30 - min (length (bd_data d)) 29) NUL\<rparr>"
proof -
  from assms have "is_name_field d"
    by (auto simp: name_field_def find_Some_iff)
  from data_cb_name_field [OF this] assms show ?thesis
    by (simp add: bt_data_parse_data_cb)
qed

lemma parsed_no_name:
  assumes "name_field ad = None"
  shows "bt_data_parse ad data_cb u = u"
  using assms by (simp add: bt_data_parse_data_cb)

lemma target_compare:
  "strncmp (c_literal PERIPHERAL_NAME) buf (strlen (c_literal PERIPHERAL_NAME)) = 0 \<longleftrightarrow>
     take 18 buf = PERIPHERAL_NAME"
  using strncmp_literal [OF PERIPHERAL_NAME_facts(1), of buf]
  by (simp add: strlen_literal PERIPHERAL_NAME_facts)

lemma device_found_requests:
  "requests (issued s
     (device_found addr rssi adv_type ad scan_stop_rc create_rc new_conn scan_start_rc s)) =
     (if match_conditions adv_type ad s then
        Bt_le_scan_stop #
        (if scan_stop_rc = 0 then
           Bt_conn_le_create addr # (if create_rc \<noteq> 0 then [Bt_le_scan_start] else [])
         else [])
      else []) \<and>
   default_conn (device_found addr rssi adv_type ad scan_stop_rc create_rc new_conn scan_start_rc s) =
     (if match_conditions adv_type ad s \<and> scan_stop_rc = 0 \<and> create_rc = 0 then Some new_conn
      else default_conn s)"
proof (cases "default_conn s = None \<and> connectable_kind adv_type")
  case False
  then show ?thesis
    by (auto simp: device_found_def match_conditions_def connectable_kind_def issued_def)
next
  case pre: True
  show ?thesis
  proof (cases "name_field ad")
    case None
    then show ?thesis
      using pre
      by (simp add: device_found_def match_conditions_def connectable_kind_def issued_def
            parsed_no_name)
  next
    case (Some d)
    let ?n = "length (bd_data d)"
    show ?thesis
    proof (cases "prefix PERIPHERAL_NAME (bd_data d)")
      case True
      then have "18 \<le> ?n"
        using PERIPHERAL_NAME_facts(2) by (auto dest: prefix_length_le)
      then have nz: "(of_nat (min ?n 29) :: u8) \<noteq> 0"
        by (auto simp: name_length_nonzero)
      have m: "match_conditions adv_type ad s"
        using pre Some True by (simp add: match_conditions_def name_has_target_prefix_def)
      have cmp: "take 18 (take (min ?n 29) (bd_data d) @ replicate (30 - min ?n 29) NUL) =
                   PERIPHERAL_NAME"
        using True take_name_eq_target [of "bd_data d"] by simp
      show ?thesis
        using pre m nz cmp
        by (simp add: device_found_def connectable_kind_def parsed_name [OF Some] Let_def
              target_compare start_scan_def issued_def)
    next
      case False
      have m: "\<not> match_conditions adv_type ad s"
        using Some False by (simp add: match_conditions_def name_has_target_prefix_def)
      have cmp: "take 18 (take (min ?n 29) (bd_data d) @ replicate (30 - min ?n 29) NUL) \<noteq>
                   PERIPHERAL_NAME"
        using False take_name_eq_target [of "bd_data d"] by simp
      show ?thesis
        using pre m cmp
        by (simp add: device_found_def connectable_kind_def parsed_name [OF Some] Let_def
              target_compare issued_def)
    qed
  qed
qed

text \<open>
  C2, as stated, fails: with all four conditions true the connect request is still not
  issued when \<open>bt_le_scan_stop\<close> returns an error (here -5); \<open>device_found\<close> returns
  after the failed stop request.
\<close>

theorem device_found_scan_stop_failure_counterexample:
  "match_conditions BT_GAP_ADV_TYPE_ADV_IND target_advertisement initial_state \<and>
   requests (trace (device_found 7 0xC4 BT_GAP_ADV_TYPE_ADV_IND target_advertisement (- 5) 0 1 0
     initial_state)) = [Bt_le_scan_stop] \<and>
   default_conn (device_found 7 0xC4 BT_GAP_ADV_TYPE_ADV_IND target_advertisement (- 5) 0 1 0
     initial_state) = None"
  by (simp add: match_conditions_def name_field_def is_name_field_def target_advertisement_def
      connectable_kind_def name_has_target_prefix_def PERIPHERAL_NAME_def initial_state_def
      BT_DATA_NAME_SHORTENED_def BT_DATA_NAME_COMPLETE_def BT_GAP_ADV_TYPE_ADV_IND_def
      BT_GAP_ADV_TYPE_SCAN_RSP_def
      device_found_def data_cb_def Let_def NAME_LEN_def NUL_def c_literal_def c_hd_def emit_def)

text \<open>
  C2, amended.  For every advertisement, report kind, state and result of the stack
  calls: \<open>device_found\<close> issues the stop-scan request if and only if the record has a name
  field, the report kind is \<open>ADV_IND\<close> or \<open>SCAN_RSP\<close>, \<open>default_conn\<close> is \<open>NULL\<close> and the
  payload of the first name field starts with \<open>PERIPHERAL_NAME\<close>; it issues the connect
  request if and only if, in addition, the stop-scan request succeeds; it restarts the
  scan when the connect request fails, and it takes the new connection as
  \<open>default_conn\<close> exactly when both requests succeed.
\<close>

theorem device_found_match:
  "requests (issued s
     (device_found addr rssi adv_type ad scan_stop_rc create_rc new_conn scan_start_rc s)) =
     (if match_conditions adv_type ad s then
        Bt_le_scan_stop #
        (if scan_stop_rc = 0 then
           Bt_conn_le_create addr # (if create_rc \<noteq> 0 then [Bt_le_scan_start] else [])
         else [])
      else []) \<and>
   (Bt_le_scan_stop \<in> set (requests (issued s
      (device_found addr rssi adv_type ad scan_stop_rc create_rc new_conn scan_start_rc s))) \<longleftrightarrow>
      match_conditions adv_type ad s) \<and>
   (Bt_conn_le_create addr \<in> set (requests (issued s
      (device_found addr rssi adv_type ad scan_stop_rc create_rc new_conn scan_start_rc s))) \<longleftrightarrow>
      match_conditions adv_type ad s \<and> scan_stop_rc = 0) \<and>
   default_conn (device_found addr rssi adv_type ad scan_stop_rc create_rc new_conn scan_start_rc s) =
     (if match_conditions adv_type ad s \<and> scan_stop_rc = 0 \<and> create_rc = 0 then Some new_conn
      else default_conn s)"
  using device_found_requests [of s addr rssi adv_type ad scan_stop_rc create_rc new_conn scan_start_rc]
  by simp

lemma target_advertisement_matches:
  "match_conditions BT_GAP_ADV_TYPE_ADV_IND target_advertisement initial_state"
  by (simp add: match_conditions_def name_field_def is_name_field_def target_advertisement_def
      connectable_kind_def name_has_target_prefix_def PERIPHERAL_NAME_def initial_state_def
      BT_DATA_NAME_SHORTENED_def BT_DATA_NAME_COMPLETE_def)

text \<open>
  The target's advertisement while idle, and the same advertisement while connection 1
  is pending.
\<close>

theorem device_found_match_witness:
  "match_conditions BT_GAP_ADV_TYPE_ADV_IND target_advertisement initial_state \<and>
   requests (issued initial_state
     (device_found 7 0xC4 BT_GAP_ADV_TYPE_ADV_IND target_advertisement 0 0 1 0 initial_state)) =
     [Bt_le_scan_stop, Bt_conn_le_create 7] \<and>
   default_conn
     (device_found 7 0xC4 BT_GAP_ADV_TYPE_ADV_IND target_advertisement 0 0 1 0 initial_state) =
     Some 1 \<and>
   \<not> match_conditions BT_GAP_ADV_TYPE_ADV_IND target_advertisement connected_state \<and>
   requests (issued connected_state
     (device_found 7 0xC4 BT_GAP_ADV_TYPE_ADV_IND target_advertisement 0 0 1 0 connected_state)) = []"
proof -
  have n: "\<not> match_conditions BT_GAP_ADV_TYPE_ADV_IND target_advertisement connected_state"
    by (simp add: match_conditions_def example_state_defs)
  show ?thesis
    using target_advertisement_matches n
      device_found_match [of initial_state 7 "0xC4" BT_GAP_ADV_TYPE_ADV_IND
                             target_advertisement 0 0 1 0]
      device_found_match [of connected_state 7 "0xC4" BT_GAP_ADV_TYPE_ADV_IND
                             target_advertisement 0 0 1 0]
    by simp
qed

section \<open>The control loop\<close>

lemma prefix_trace_append [simp]: "prefix t u \<Longrightarrow> prefix t (u @ as)"
  by (simp add: prefix_append)

lemma trace_sem_set [simp]: "trace (sem_set m b s) = trace s"
  by (cases m) simp_all




























subsection \<open>Passes of the loop\<close>


lemma start_discovery_fields [simp]:
  "sem_connected (start_discovery s) = sem_connected s"
  "sem_discovered (start_discovery s) = sem_discovered s"
  "sem_disconnected (start_discovery s) = sem_disconnected s"
  "default_conn (start_discovery s) = default_conn s"
  by (simp_all add: start_discovery_def Let_def)

lemma expired_simps [simp]:
  "expired K_FOREVER arrival = False"
  "expired (K_SECONDS n) arrival \<longleftrightarrow> n \<le> arrival"
  by (simp_all add: expired_def)

lemma scan_starts_simps [simp]:
  "scan_starts [] = 0"
  "scan_starts (Bt_le_scan_start # as) = Suc (scan_starts as)"
  "a \<noteq> Bt_le_scan_start \<Longrightarrow> scan_starts (a # as) = scan_starts as"
  "scan_starts (as @ bs) = scan_starts as + scan_starts bs"
  by (simp_all add: scan_starts_def)





lemma disconnected_sems [simp]:
  "sem_connected (disconnected conn reason s) = sem_connected s"
  "sem_discovered (disconnected conn reason s) = sem_discovered s"
  by (simp_all add: disconnected_def k_sem_give_def Let_def)









subsection \<open>Disconnects\<close>






subsection \<open>Recovery\<close>






















end
